theory Spec2Isabelle
  imports Main "HOL-Library.Word"
begin

section \<open>JavaScript values\<close>

text \<open>
  The client is dynamically typed: header values, the decoded query string, the
  parsed response body and the request options are plain JavaScript values.
  Numbers are restricted to integers (the client only tests numbers for
  truthiness and passes them on).  An object lists its own properties; a
  property is read by its first entry.
\<close>

datatype jsval =
    JUndefined
  | JNull
  | JBool bool
  | JNum int
  | is_JStr: JStr (str_of: string)
  | JArr "jsval list"
  | JObj "(string \<times> jsval) list"

text \<open>\<^verbatim>\<open>!v\<close> is \<open>\<not> truthy v\<close>.\<close>

fun truthy :: "jsval \<Rightarrow> bool" where
  "truthy JUndefined = False"
| "truthy JNull = False"
| "truthy (JBool b) = b"
| "truthy (JNum n) = (n \<noteq> 0)"
| "truthy (JStr s) = (s \<noteq> [])"
| "truthy (JArr xs) = True"
| "truthy (JObj kvs) = True"

text \<open>Reading a property of \<open>undefined\<close> or \<open>null\<close> throws a TypeError.\<close>

definition nullish :: "jsval \<Rightarrow> bool" where
  "nullish v = (v = JUndefined \<or> v = JNull)"

text \<open>
  \<^verbatim>\<open>v[k]\<close> for a value that is not nullish, and for the property names the
  client reads (\<^verbatim>\<open>digest\<close>, \<^verbatim>\<open>signature\<close>, \<^verbatim>\<open>x-signature-type\<close>, \<^verbatim>\<open>x-identity\<close>,
  \<^verbatim>\<open>network\<close>, \<^verbatim>\<open>r\<close>): an object yields the property or \<open>undefined\<close>; booleans,
  numbers, strings and arrays have no such property.
\<close>

fun get_prop :: "jsval \<Rightarrow> string \<Rightarrow> jsval" where
  "get_prop (JObj kvs) k = (case map_of kvs k of None \<Rightarrow> JUndefined | Some v \<Rightarrow> v)"
| "get_prop v k = JUndefined"

text \<open>\<^verbatim>\<open>s.split(c)\<close> for a one-character separator.\<close>

fun split_on :: "char \<Rightarrow> string \<Rightarrow> string list" where
  "split_on c [] = [[]]"
| "split_on c (x # xs) =
     (if x = c then [] # split_on c xs
      else (case split_on c xs of
              [] \<Rightarrow> [[x]]
            | p # ps \<Rightarrow> (x # p) # ps))"

text \<open>\<^verbatim>\<open>xs[1]\<close> of an array of strings; \<open>None\<close> is \<open>undefined\<close>.\<close>

fun index1 :: "string list \<Rightarrow> string option" where
  "index1 (a # b # rest) = Some b"
| "index1 xs = None"

text \<open>\<^verbatim>\<open>xs.includes(v)\<close> for an array of strings \<open>xs\<close>.\<close>

definition array_includes :: "string list \<Rightarrow> jsval \<Rightarrow> bool" where
  "array_includes xs v = (is_JStr v \<and> str_of v \<in> set xs)"

section \<open>Library functions\<close>

text \<open>
  The client calls Node's \<^verbatim>\<open>JSON\<close>, \<^verbatim>\<open>url\<close>, \<^verbatim>\<open>querystring\<close>, \<^verbatim>\<open>crypto\<close>, \<^verbatim>\<open>Buffer\<close>
  and the \<^verbatim>\<open>secp256k1\<close> module.  They are not part of the repository, so every
  definition below takes them as a parameter \<open>lib\<close>; \<open>None\<close> means that the
  call throws.
\<close>

record parsed_url =
  protocol :: "string option"
  hostname :: "string option"
  port :: "string option"
  path :: "string option"
  query :: "string option"

type_synonym bytes = "8 word list"

record library =
  JSON_parse :: "jsval \<Rightarrow> jsval option"
  JSON_stringify :: "jsval \<Rightarrow> string"
  url_parse :: "string \<Rightarrow> parsed_url option"
  query_decode :: "string option \<Rightarrow> (string \<times> jsval) list"
  sha256_hex :: "string \<Rightarrow> string"
  Buffer_from_hex :: "string \<Rightarrow> bytes"
  secp256k1_verify :: "bytes \<Rightarrow> bytes \<Rightarrow> bytes \<Rightarrow> bool option"

section \<open>The protocol client\<close>

record trusted_key =
  publicKey :: string
  domains :: "string list"
  networks :: "string list"

text \<open>
  The trust table is a plain object: \<open>trustedKeys\<close> below holds its own
  properties, one key record for each identity.  A plain object also inherits
  the properties of \<^verbatim>\<open>Object.prototype\<close>, which \<^verbatim>\<open>table[identity]\<close> finds when the
  table has no property of its own under that name; each of them is a function
  or an object, hence truthy, and has no \<^verbatim>\<open>domains\<close> property.
\<close>

definition Object_prototype :: "string list" where
  "Object_prototype =
     [''constructor'', ''__defineGetter__'', ''__defineSetter__'', ''hasOwnProperty'',
      ''__lookupGetter__'', ''__lookupSetter__'', ''isPrototypeOf'',
      ''propertyIsEnumerable'', ''toString'', ''valueOf'', ''__proto__'',
      ''toLocaleString'']"

text \<open>The object built by \<^verbatim>\<open>new PaymentProtocol(requestOptions, trustedKeys)\<close>.\<close>

record PaymentProtocol =
  options :: "string \<rightharpoonup> jsval"
  trustedKeys :: "string \<rightharpoonup> trusted_key"

definition new_PaymentProtocol ::
  "(string \<rightharpoonup> jsval) \<Rightarrow> (string \<rightharpoonup> trusted_key) \<Rightarrow> PaymentProtocol" where
  "new_PaymentProtocol requestOptions keys =
     \<lparr>options = [''agent'' \<mapsto> JBool False] ++ requestOptions, trustedKeys = keys\<rparr>"

text \<open>
  Every \<^verbatim>\<open>throw\<close> (a rejected promise) is a value.  The constructors carry what
  the message interpolates:
  \<^item> \<open>ParameterRequired p\<close>: \<^verbatim>\<open>Parameter p is required\<close>
  \<^item> \<open>InvalidJSON\<close>: \<^verbatim>\<open>Invalid JSON in response body\<close>
  \<^item> \<open>InvalidRequestUrl\<close>: \<^verbatim>\<open>Invalid requestUrl\<close>
  \<^item> \<open>MissingHeader h\<close>: \<^verbatim>\<open>Response missing h header\<close>
  \<^item> \<open>InvalidHeader h\<close>: \<^verbatim>\<open>Invalid h header\<close>
  \<^item> \<open>UnknownSignatureType t\<close>: \<^verbatim>\<open>Unknown signature type t\<close>
  \<^item> \<open>UnknownKey i\<close>: \<^verbatim>\<open>Response signed by unknown key (i), unable to validate\<close>
  \<^item> \<open>DigestMismatch actual expected\<close>: \<^verbatim>\<open>Response body hash does not match digest header\<close>
  \<^item> \<open>UntrustedDomain i host\<close>: \<^verbatim>\<open>The key on the response (i) is not trusted for domain host\<close>
  \<^item> \<open>UntrustedNetwork n\<close>: \<^verbatim>\<open>The key on the response is not trusted for transactions on the 'n' network\<close>
  \<^item> \<open>SignatureInvalid\<close>: \<^verbatim>\<open>Response signature invalid\<close>
  \<^item> \<open>InvalidPaymentProtocolUrl\<close>: \<^verbatim>\<open>Invalid payment protocol url\<close>
  \<^item> \<open>TypeError\<close>: the runtime's TypeError (a property of \<open>undefined\<close>, a call
    of something that is not a function, a library argument of the wrong type)
  \<^item> \<open>LibraryError f\<close>: the library function \<open>f\<close> threw
  \<^item> \<open>RequestError e\<close>: the request emitted \<^verbatim>\<open>error\<close>
  \<^item> \<open>StatusError body\<close>: a status other than 200, \<^verbatim>\<open>new Error(body.join(''))\<close>
\<close>

datatype error =
    ParameterRequired string
  | InvalidJSON
  | InvalidRequestUrl
  | MissingHeader string
  | InvalidHeader string
  | UnknownSignatureType string
  | UnknownKey string
  | DigestMismatch string "string option"
  | UntrustedDomain string string
  | UntrustedNetwork jsval
  | SignatureInvalid
  | InvalidPaymentProtocolUrl
  | TypeError
  | LibraryError string
  | RequestError string
  | StatusError string

text \<open>
  What \<^verbatim>\<open>verifyResponse\<close> returns: \<^verbatim>\<open>{ requestUrl, responseData, keyData }\<close>, or
  \<^verbatim>\<open>{ requestUrl, responseData }\<close> (\<open>keyData = None\<close>) on the bypass path.
\<close>

record verified_response =
  requestUrl :: jsval
  responseData :: jsval
  keyData :: "trusted_key option"

subsection \<open>verifyResponse\<close>

text \<open>
  \<^verbatim>\<open>verifyResponse(requestUrl, rawBody, headers, checkNetwork, unsafeBypassValidation)\<close>
  with the arguments \<open>reqUrl\<close>, \<open>body\<close>, \<open>hdrs\<close>; an omitted argument is
  \<open>JUndefined\<close>.  The two flags are read for truthiness only and are booleans
  here.  The checks are in the order of the source.  Under an identity that
  names an inherited property and no property of the table itself, the lookup
  yields a value that passes the test for an unknown key; the digest is then
  compared, and \<^verbatim>\<open>keyData.domains.includes\<close> throws a TypeError.
\<close>

definition verifyResponse ::
  "library \<Rightarrow> PaymentProtocol \<Rightarrow> jsval \<Rightarrow> jsval \<Rightarrow> jsval \<Rightarrow> bool \<Rightarrow> bool
     \<Rightarrow> error + verified_response" where
  "verifyResponse lib this reqUrl body hdrs checkNetwork unsafeBypassValidation =
    (if \<not> truthy reqUrl then Inl (ParameterRequired ''requestUrl'')
     else if \<not> truthy body then Inl (ParameterRequired ''rawBody'')
     else if \<not> truthy hdrs then Inl (ParameterRequired ''headers'')
     else (case JSON_parse lib body of
       None \<Rightarrow> Inl InvalidJSON
     | Some data \<Rightarrow>
       if unsafeBypassValidation
       then Inr \<lparr>requestUrl = reqUrl, responseData = data, keyData = None\<rparr>
       else if \<not> is_JStr (get_prop hdrs ''digest'') then Inl TypeError
       else
         let hash = index1 (split_on CHR ''='' (str_of (get_prop hdrs ''digest'')));
             signature = get_prop hdrs ''signature'';
             signatureType = get_prop hdrs ''x-signature-type'';
             identity = get_prop hdrs ''x-identity'';
             host = (if is_JStr reqUrl
                     then (case url_parse lib (str_of reqUrl) of
                             None \<Rightarrow> None
                           | Some u \<Rightarrow> hostname u)
                     else None)
         in
         if host = None \<or> host = Some [] then Inl InvalidRequestUrl
         else if \<not> truthy signatureType then Inl (MissingHeader ''x-signature-type'')
         else if \<not> is_JStr signatureType then Inl (InvalidHeader ''x-signature-type'')
         else if signatureType \<noteq> JStr ''ecc''
           then Inl (UnknownSignatureType (str_of signatureType))
         else if \<not> truthy signature then Inl (MissingHeader ''signature'')
         else if \<not> is_JStr signature then Inl (InvalidHeader ''signature'')
         else if \<not> truthy identity then Inl (MissingHeader ''x-identity'')
         else if \<not> is_JStr identity then Inl (InvalidHeader ''identity'')
         else (case trustedKeys this (str_of identity) of
           None \<Rightarrow>
           if str_of identity \<in> set Object_prototype
           then (if \<not> is_JStr body then Inl TypeError
                 else if hash \<noteq> Some (sha256_hex lib (str_of body))
                   then Inl (DigestMismatch (sha256_hex lib (str_of body)) hash)
                 else Inl TypeError)
           else Inl (UnknownKey (str_of identity))
         | Some key \<Rightarrow>
           if \<not> is_JStr body then Inl TypeError
           else
             let actualHash = sha256_hex lib (str_of body) in
             if hash \<noteq> Some actualHash then Inl (DigestMismatch actualHash hash)
             else if \<not> array_includes (domains key) (JStr (the host))
               then Inl (UntrustedDomain (str_of identity) (the host))
             else if checkNetwork \<and> nullish data then Inl TypeError
             else if checkNetwork \<and> \<not> array_includes (networks key) (get_prop data ''network'')
               then Inl (UntrustedNetwork (get_prop data ''network''))
             else (case secp256k1_verify lib
                         (Buffer_from_hex lib actualHash)
                         (Buffer_from_hex lib (str_of signature))
                         (Buffer_from_hex lib (publicKey key)) of
               None \<Rightarrow> Inl (LibraryError ''secp256k1.verify'')
             | Some valid \<Rightarrow>
               if \<not> valid then Inl SignatureInvalid
               else Inr \<lparr>requestUrl = reqUrl, responseData = data, keyData = Some key\<rparr>))))"

subsection \<open>The transport\<close>

text \<open>
  \<^verbatim>\<open>https.request\<close> is the outside world.  A request that reaches it is recorded
  on the \<open>wire\<close>, with the options object it was given and the body written to
  it; the answer of the network may depend on the requests sent before.
\<close>

record sent_request =
  sent_options :: "string \<rightharpoonup> jsval"
  sent_body :: "jsval option"

datatype http_outcome =
    RequestFailed string
  | Response int string jsval

type_synonym network = "sent_request list \<Rightarrow> sent_request \<Rightarrow> http_outcome"

record state =
  self :: PaymentProtocol
  wire :: "sent_request list"

record raw_response =
  rawBody :: string
  headers :: jsval

definition js_of_opt :: "string option \<Rightarrow> jsval" where
  "js_of_opt x = (case x of None \<Rightarrow> JNull | Some s \<Rightarrow> JStr s)"

definition js_of_entry :: "jsval option \<Rightarrow> jsval" where
  "js_of_entry x = (case x of None \<Rightarrow> JUndefined | Some v \<Rightarrow> v)"

text \<open>
  \<^verbatim>\<open>_asyncRequest(options)\<close>.  \<^verbatim>\<open>Object.assign\<close> is \<open>++\<close>; \<^verbatim>\<open>url.parse\<close> throws a
  TypeError when its argument is not a string; the status and the chunks joined
  are the two first arguments of \<open>Response\<close>.
\<close>

definition asyncRequest ::
  "library \<Rightarrow> network \<Rightarrow> (string \<rightharpoonup> jsval) \<Rightarrow> state
     \<Rightarrow> (error + raw_response) \<times> state" where
  "asyncRequest lib net opts st =
    (let requestOptions = options (self st) ++ opts;
         target = js_of_entry (requestOptions ''url'')
     in
     if \<not> is_JStr target then (Inl TypeError, st)
     else (case url_parse lib (str_of target) of
       None \<Rightarrow> (Inl (LibraryError ''url.parse''), st)
     | Some parsedUrl \<Rightarrow>
       let requestOptions' =
             (requestOptions
                (''hostname'' \<mapsto> js_of_opt (hostname parsedUrl),
                 ''path'' \<mapsto> js_of_opt (path parsedUrl),
                 ''port'' \<mapsto> js_of_opt (port parsedUrl)))
                (''url'' := None);
           written = js_of_entry (requestOptions' ''body'');
           request = \<lparr>sent_options = requestOptions',
                      sent_body = (if truthy written then Some written else None)\<rparr>;
           st' = st\<lparr>wire := wire st @ [request]\<rparr>
       in
       (case net (wire st) request of
          RequestFailed err \<Rightarrow> (Inl (RequestError err), st')
        | Response statusCode text hs \<Rightarrow>
          if statusCode \<noteq> 200 then (Inl (StatusError text), st')
          else (Inr \<lparr>rawBody = text, headers = hs\<rparr>, st'))))"

subsection \<open>The four operations\<close>

text \<open>
  \<^verbatim>\<open>getPaymentOptions(paymentUrl, unsafeBypassValidation)\<close>.  \<open>other\<close> is the
  test for a scheme that is neither http nor https; \<open>uriQuery\<close> is read under
  that test only.  \<open>target\<close> is the variable \<^verbatim>\<open>paymentUrl\<close> after the \<^verbatim>\<open>if\<close>: the
  argument itself, or whatever the query string holds under \<^verbatim>\<open>r\<close>.
\<close>

definition getPaymentOptions ::
  "library \<Rightarrow> network \<Rightarrow> string \<Rightarrow> bool \<Rightarrow> state
     \<Rightarrow> (error + verified_response) \<times> state" where
  "getPaymentOptions lib net paymentUrl unsafeBypassValidation st =
    (case url_parse lib paymentUrl of
       None \<Rightarrow> (Inl (LibraryError ''url.parse''), st)
     | Some paymentUrlObject \<Rightarrow>
       let other = (protocol paymentUrlObject \<noteq> Some ''http:''
                    \<and> protocol paymentUrlObject \<noteq> Some ''https:'');
           uriQuery = JObj (query_decode lib (query paymentUrlObject))
       in
       if other \<and> \<not> truthy (get_prop uriQuery ''r'')
       then (Inl InvalidPaymentProtocolUrl, st)
       else
         let target = (if other then get_prop uriQuery ''r'' else JStr paymentUrl) in
         (case asyncRequest lib net
                 [''method'' \<mapsto> JStr ''GET'',
                  ''url'' \<mapsto> target,
                  ''headers'' \<mapsto> JObj [(''Accept'', JStr ''application/payment-options''),
                                       (''x-paypro-version'', JNum 2)]] st of
            (Inl e, st') \<Rightarrow> (Inl e, st')
          | (Inr r, st') \<Rightarrow>
            (verifyResponse lib (self st') target (JStr (rawBody r)) (headers r)
               False unsafeBypassValidation, st')))"

text \<open>\<^verbatim>\<open>selectPaymentOption(paymentUrl, chain, currency, unsafeBypassValidation)\<close>.\<close>

definition selectPaymentOption ::
  "library \<Rightarrow> network \<Rightarrow> string \<Rightarrow> jsval \<Rightarrow> jsval \<Rightarrow> bool \<Rightarrow> state
     \<Rightarrow> (error + verified_response) \<times> state" where
  "selectPaymentOption lib net paymentUrl chain currency unsafeBypassValidation st =
    (case asyncRequest lib net
            [''url'' \<mapsto> JStr paymentUrl,
             ''method'' \<mapsto> JStr ''POST'',
             ''headers'' \<mapsto> JObj [(''Content-Type'', JStr ''application/payment-request''),
                                  (''x-paypro-version'', JNum 2)],
             ''body'' \<mapsto> JStr (JSON_stringify lib
                                  (JObj [(''chain'', chain), (''currency'', currency)]))] st of
       (Inl e, st') \<Rightarrow> (Inl e, st')
     | (Inr r, st') \<Rightarrow>
       (verifyResponse lib (self st') (JStr paymentUrl) (JStr (rawBody r)) (headers r)
          True unsafeBypassValidation, st'))"

text \<open>
  \<^verbatim>\<open>verifyPaymentRequest({paymentUrl, chain, currency, unsignedTransactions,
  unsafeBypassValidation})\<close> returns \<^verbatim>\<open>{ responseData: JSON.parse(rawBody) }\<close>; the
  call of \<^verbatim>\<open>verifyResponse\<close> is commented out in the source.
\<close>

record parsed_response =
  parsedData :: jsval

definition verifyPaymentRequest ::
  "library \<Rightarrow> network \<Rightarrow> string \<Rightarrow> jsval \<Rightarrow> jsval \<Rightarrow> jsval \<Rightarrow> bool \<Rightarrow> state
     \<Rightarrow> (error + parsed_response) \<times> state" where
  "verifyPaymentRequest lib net paymentUrl chain currency unsignedTransactions
       unsafeBypassValidation st =
    (case asyncRequest lib net
            [''url'' \<mapsto> JStr paymentUrl,
             ''method'' \<mapsto> JStr ''POST'',
             ''headers'' \<mapsto> JObj [(''Content-Type'', JStr ''application/payment-verification''),
                                  (''x-paypro-version'', JNum 2)],
             ''body'' \<mapsto> JStr (JSON_stringify lib
                                  (JObj [(''chain'', chain), (''currency'', currency),
                                         (''transactions'', unsignedTransactions)]))] st of
       (Inl e, st') \<Rightarrow> (Inl e, st')
     | (Inr r, st') \<Rightarrow>
       (case JSON_parse lib (JStr (rawBody r)) of
          None \<Rightarrow> (Inl (LibraryError ''JSON.parse''), st')
        | Some data \<Rightarrow> (Inr \<lparr>parsedData = data\<rparr>, st')))"

text \<open>\<^verbatim>\<open>sendSignedPayment({paymentUrl, chain, currency, signedTransactions,
  unsafeBypassValidation})\<close>.\<close>

definition sendSignedPayment ::
  "library \<Rightarrow> network \<Rightarrow> string \<Rightarrow> jsval \<Rightarrow> jsval \<Rightarrow> jsval \<Rightarrow> bool \<Rightarrow> state
     \<Rightarrow> (error + verified_response) \<times> state" where
  "sendSignedPayment lib net paymentUrl chain currency signedTransactions
       unsafeBypassValidation st =
    (case asyncRequest lib net
            [''url'' \<mapsto> JStr paymentUrl,
             ''method'' \<mapsto> JStr ''POST'',
             ''headers'' \<mapsto> JObj [(''Content-Type'', JStr ''application/payment''),
                                  (''x-paypro-version'', JNum 2)],
             ''body'' \<mapsto> JStr (JSON_stringify lib
                                  (JObj [(''chain'', chain), (''currency'', currency),
                                         (''transactions'', signedTransactions)]))] st of
       (Inl e, st') \<Rightarrow> (Inl e, st')
     | (Inr r, st') \<Rightarrow>
       (verifyResponse lib (self st') (JStr paymentUrl) (JStr (rawBody r)) (headers r)
          False unsafeBypassValidation, st'))"

subsection \<open>Sequences of calls\<close>

text \<open>
  The calls a program can make on a client, and the state after a sequence of them.
  \<^verbatim>\<open>verifyResponse\<close> sends nothing and assigns nothing.
\<close>

datatype call =
    GetPaymentOptions string bool
  | SelectPaymentOption string jsval jsval bool
  | VerifyPaymentRequest string jsval jsval jsval bool
  | SendSignedPayment string jsval jsval jsval bool
  | VerifyResponse jsval jsval jsval bool bool

fun perform :: "library \<Rightarrow> network \<Rightarrow> state \<Rightarrow> call \<Rightarrow> state" where
  "perform lib net st (GetPaymentOptions u b) = snd (getPaymentOptions lib net u b st)"
| "perform lib net st (SelectPaymentOption u ch cu b) =
     snd (selectPaymentOption lib net u ch cu b st)"
| "perform lib net st (VerifyPaymentRequest u ch cu txs b) =
     snd (verifyPaymentRequest lib net u ch cu txs b st)"
| "perform lib net st (SendSignedPayment u ch cu txs b) =
     snd (sendSignedPayment lib net u ch cu txs b st)"
| "perform lib net st (VerifyResponse u body hdrs cn b) = st"

definition run :: "library \<Rightarrow> network \<Rightarrow> state \<Rightarrow> call list \<Rightarrow> state" where
  "run lib net st calls = foldl (perform lib net) st calls"

section \<open>A library excerpt and a client for concrete runs\<close>

text \<open>
  The theorems below hold for every library.  Concrete runs need concrete
  library functions: \<open>demo_lib\<close> is a finite excerpt of them.  At the inputs
  listed, the values the client reads are the ones Node computes (the SHA-256
  digests, the secp256k1 key and signatures, the parsed JSON, the protocol,
  hostname and query of the parsed URLs); at every other input the excerpt
  throws or returns an empty value.
\<close>

definition main_body :: string where
  \<open>main_body = ''{"network":"main"}''\<close>

definition test_body :: string where
  \<open>test_body = ''{"network":"test"}''\<close>

text \<open>\<open>main_body\<close> with its last byte replaced.\<close>

definition broken_body :: string where
  \<open>broken_body = ''{"network":"main"x''\<close>

text \<open>The JSON text of \<open>null\<close>.\<close>

definition null_body :: string where
  "null_body = ''null''"

definition demo_JSON_parse :: "jsval \<Rightarrow> jsval option" where
  "demo_JSON_parse text =
     (if text = JStr main_body then Some (JObj [(''network'', JStr ''main'')])
      else if text = JStr test_body then Some (JObj [(''network'', JStr ''test'')])
      else if text = JStr null_body then Some JNull
      else None)"

definition demo_JSON_stringify :: "jsval \<Rightarrow> string" where
  \<open>demo_JSON_stringify v =
     (if v = JObj [(''chain'', JStr ''BTC''), (''currency'', JStr ''BTC'')]
      then ''{"chain":"BTC","currency":"BTC"}''
      else if v = JObj [(''chain'', JStr ''BTC''), (''currency'', JStr ''BTC''),
                        (''transactions'', JArr [])]
      then ''{"chain":"BTC","currency":"BTC","transactions":[]}''
      else [])\<close>

definition demo_url_parse :: "string \<Rightarrow> parsed_url option" where
  "demo_url_parse u =
     (if u = ''https://merchant.example/pay''
      then Some \<lparr>protocol = Some ''https:'', hostname = Some ''merchant.example'',
                  port = None, path = Some ''/pay'', query = None\<rparr>
      else if u = ''https://other.example/pay''
      then Some \<lparr>protocol = Some ''https:'', hostname = Some ''other.example'',
                  port = None, path = Some ''/pay'', query = None\<rparr>
      else if u = ''bitcoin:?r=https://merchant.example/pay''
      then Some \<lparr>protocol = Some ''bitcoin:'', hostname = Some [],
                  port = None, path = Some ''?r=https://merchant.example/pay'',
                  query = Some ''r=https://merchant.example/pay''\<rparr>
      else if u = ''bitcoin:''
      then Some \<lparr>protocol = Some ''bitcoin:'', hostname = Some [],
                  port = None, path = None, query = None\<rparr>
      else None)"

definition demo_query_decode :: "string option \<Rightarrow> (string \<times> jsval) list" where
  "demo_query_decode q =
     (if q = Some ''r=https://merchant.example/pay''
      then [(''r'', JStr ''https://merchant.example/pay'')]
      else [])"

definition demo_sha256_hex :: "string \<Rightarrow> string" where
  "demo_sha256_hex text =
     (if text = main_body
      then ''2d8b5a3901cc752a0607e9500adf3b3a4a8b1aa5f30fcf8592ff6a88ffa99cb0''
      else if text = test_body
      then ''70e0916151f9e06ea25742fc1ce555525390f072583b339ce80de5f0eba0f273''
      else if text = broken_body
      then ''3060fb9447d8d4d557ee457781775f063a5ba1ed38f6018bbe7e45556d33d56f''
      else if text = null_body
      then ''74234e98afe7498fb5daf1f36ac2d78acc339464f950703b8c019892f982b90b''
      else [])"

definition hex_digit :: "char \<Rightarrow> nat option" where
  "hex_digit c =
     (let n = (of_char c :: nat) in
      if 48 \<le> n \<and> n \<le> 57 then Some (n - 48)
      else if 97 \<le> n \<and> n \<le> 102 then Some (n - 87)
      else if 65 \<le> n \<and> n \<le> 70 then Some (n - 55)
      else None)"

text \<open>Pairs of hexadecimal digits up to the first pair that is not one.\<close>

fun demo_Buffer_from_hex :: "string \<Rightarrow> bytes" where
  "demo_Buffer_from_hex (a # b # rest) =
     (case hex_digit a of
        None \<Rightarrow> []
      | Some h \<Rightarrow>
        (case hex_digit b of
           None \<Rightarrow> []
         | Some l \<Rightarrow> of_nat (16 * h + l) # demo_Buffer_from_hex rest))"
| "demo_Buffer_from_hex rest = []"

text \<open>
  A compressed secp256k1 public key, and the signatures (\<open>r\<close> then \<open>s\<close>, 64
  bytes) of its private key over the SHA-256 digests of \<open>main_body\<close>,
  \<open>test_body\<close> and \<open>null_body\<close>.
\<close>

definition demo_publicKey :: string where
  "demo_publicKey = ''0386dd43c24cbe1a3792695d7be0dc77f2f3bc5aa03375d5ac522cc12a2cc005cb''"

definition main_signature :: string where
  "main_signature =
     ''e15534b6d94d893d4053b180a567c0f2e5ed04525aeddff20e74a2a6299a53614e2530fd073bf0ac0d2fde848049f97a5888fcfd54d940bf4e08015bd14871b6''"

definition test_signature :: string where
  "test_signature =
     ''62b9bf2d41543e50d3467ae965b9b43c65f4e75a08a9545a4d4a85f48cdfbcb326ff635cb275f2f0cf907740602b5c63b7d36c90435fef59ee7309f9803420c4''"

definition null_signature :: string where
  "null_signature =
     ''daeee8690d742a43941564d29d9d6084ba19f7279eebb19c26a8cd3e85fc463c0c41d822e88c8387627d863ed8d45962e838cad98681ec27b557eed3f3f581bd''"

text \<open>The module throws on a message, signature or key of the wrong length.\<close>

definition demo_secp256k1_verify :: "bytes \<Rightarrow> bytes \<Rightarrow> bytes \<Rightarrow> bool option" where
  "demo_secp256k1_verify msg sig pub =
     (if length msg = 32 \<and> length sig = 64 \<and> length pub = 33
      then Some (pub = demo_Buffer_from_hex demo_publicKey
                 \<and> ((msg = demo_Buffer_from_hex (demo_sha256_hex main_body)
                      \<and> sig = demo_Buffer_from_hex main_signature)
                    \<or> (msg = demo_Buffer_from_hex (demo_sha256_hex test_body)
                      \<and> sig = demo_Buffer_from_hex test_signature)
                    \<or> (msg = demo_Buffer_from_hex (demo_sha256_hex null_body)
                      \<and> sig = demo_Buffer_from_hex null_signature)))
      else None)"

definition demo_lib :: library where
  "demo_lib =
     \<lparr>JSON_parse = demo_JSON_parse,
      JSON_stringify = demo_JSON_stringify,
      url_parse = demo_url_parse,
      query_decode = demo_query_decode,
      sha256_hex = demo_sha256_hex,
      Buffer_from_hex = demo_Buffer_from_hex,
      secp256k1_verify = demo_secp256k1_verify\<rparr>"

text \<open>A trust table with one identity, and the client built from it.\<close>

definition demo_key :: trusted_key where
  "demo_key = \<lparr>publicKey = demo_publicKey, domains = [''merchant.example''],
               networks = [''main'']\<rparr>"

definition demo_keys :: "string \<rightharpoonup> trusted_key" where
  "demo_keys = [''id1'' \<mapsto> demo_key]"

definition demo_client :: PaymentProtocol where
  "demo_client = new_PaymentProtocol [''rejectUnauthorized'' \<mapsto> JBool False] demo_keys"

definition demo_state :: state where
  "demo_state = \<lparr>self = demo_client, wire = []\<rparr>"

definition merchant_url :: string where
  "merchant_url = ''https://merchant.example/pay''"

definition other_url :: string where
  "other_url = ''https://other.example/pay''"

text \<open>The headers a server holding the private key sends with each body.\<close>

definition main_headers :: jsval where
  "main_headers =
     JObj [(''digest'', JStr (''SHA-256='' @ demo_sha256_hex main_body)),
           (''signature'', JStr main_signature),
           (''x-signature-type'', JStr ''ecc''),
           (''x-identity'', JStr ''id1'')]"

definition test_headers :: jsval where
  "test_headers =
     JObj [(''digest'', JStr (''SHA-256='' @ demo_sha256_hex test_body)),
           (''signature'', JStr test_signature),
           (''x-signature-type'', JStr ''ecc''),
           (''x-identity'', JStr ''id1'')]"

definition null_headers :: jsval where
  "null_headers =
     JObj [(''digest'', JStr (''SHA-256='' @ demo_sha256_hex null_body)),
           (''signature'', JStr null_signature),
           (''x-signature-type'', JStr ''ecc''),
           (''x-identity'', JStr ''id1'')]"

text \<open>The headers of \<open>main_body\<close> without the \<^verbatim>\<open>digest\<close> entry.\<close>

definition headers_without_digest :: jsval where
  "headers_without_digest =
     JObj [(''signature'', JStr main_signature),
           (''x-signature-type'', JStr ''ecc''),
           (''x-identity'', JStr ''id1'')]"

text \<open>A server that answers every request with the same status, body and headers.\<close>

definition constant_net :: "int \<Rightarrow> string \<Rightarrow> jsval \<Rightarrow> network" where
  "constant_net statusCode text hs = (\<lambda>sent request. Response statusCode text hs)"

section \<open>Basic facts\<close>

lemmas demo_defs =
  demo_lib_def demo_client_def demo_state_def demo_keys_def demo_key_def
  new_PaymentProtocol_def main_headers_def test_headers_def null_headers_def
  headers_without_digest_def main_body_def test_body_def broken_body_def null_body_def
  merchant_url_def other_url_def
  demo_JSON_parse_def demo_JSON_stringify_def demo_url_parse_def demo_query_decode_def
  demo_sha256_hex_def demo_secp256k1_verify_def demo_publicKey_def main_signature_def
  test_signature_def null_signature_def hex_digit_def constant_net_def Object_prototype_def

lemma string_header_truthy: "get_prop hdrs k = JStr s \<Longrightarrow> truthy hdrs"
  by (cases hdrs) simp_all

text \<open>What a successful call without bypass has checked, in terms of the arguments.\<close>

lemma verifyResponse_Inr_checks:
  assumes "verifyResponse lib this reqUrl body hdrs checkNetwork False = Inr r"
  shows "truthy reqUrl \<and> truthy body \<and> truthy hdrs \<and> is_JStr body
       \<and> is_JStr (get_prop hdrs ''digest'')
       \<and> index1 (split_on CHR ''='' (str_of (get_prop hdrs ''digest'')))
           = Some (sha256_hex lib (str_of body))
       \<and> is_JStr reqUrl
       \<and> (\<exists>parsed host. url_parse lib (str_of reqUrl) = Some parsed
             \<and> hostname parsed = Some host \<and> host \<noteq> [])
       \<and> get_prop hdrs ''x-signature-type'' = JStr ''ecc''
       \<and> truthy (get_prop hdrs ''signature'') \<and> is_JStr (get_prop hdrs ''signature'')
       \<and> truthy (get_prop hdrs ''x-identity'') \<and> is_JStr (get_prop hdrs ''x-identity'')
       \<and> trustedKeys this (str_of (get_prop hdrs ''x-identity'')) = keyData r
       \<and> keyData r \<noteq> None"
  using assms
  by (auto simp: verifyResponse_def Let_def split: if_splits option.splits)

text \<open>The converse: a response that passes every check is returned with its key.\<close>

lemma verifyResponse_accepts:
  assumes "url \<noteq> []" and "url_parse lib url = Some parsed"
    and "hostname parsed = Some host" and "host \<noteq> []"
    and "raw \<noteq> []" and "JSON_parse lib (JStr raw) = Some data"
    and "get_prop hdrs ''digest'' = JStr digest"
    and "index1 (split_on CHR ''='' digest) = Some (sha256_hex lib raw)"
    and "get_prop hdrs ''x-signature-type'' = JStr ''ecc''"
    and "get_prop hdrs ''signature'' = JStr signature" and "signature \<noteq> []"
    and "get_prop hdrs ''x-identity'' = JStr identity" and "identity \<noteq> []"
    and "trustedKeys this identity = Some key"
    and "host \<in> set (domains key)"
    and "checkNetwork \<longrightarrow>
           \<not> nullish data \<and> array_includes (networks key) (get_prop data ''network'')"
    and "secp256k1_verify lib (Buffer_from_hex lib (sha256_hex lib raw))
           (Buffer_from_hex lib signature) (Buffer_from_hex lib (publicKey key)) = Some True"
  shows "verifyResponse lib this (JStr url) (JStr raw) hdrs checkNetwork False
           = Inr \<lparr>requestUrl = JStr url, responseData = data, keyData = Some key\<rparr>"
proof -
  have "truthy hdrs"
    using assms(7) by (rule string_header_truthy)
  with assms show ?thesis
    by (simp add: verifyResponse_def Let_def array_includes_def)
qed

text \<open>
  An identity that is no property of the table itself: an unknown key, unless
  the name is inherited from \<^verbatim>\<open>Object.prototype\<close>; then the digest is compared
  and the call ends with a TypeError.
\<close>

lemma verifyResponse_identity_not_in_table:
  assumes "url \<noteq> []" and "url_parse lib url = Some parsed"
    and "hostname parsed = Some host" and "host \<noteq> []"
    and "raw \<noteq> []" and "JSON_parse lib (JStr raw) = Some data"
    and "get_prop hdrs ''digest'' = JStr digest"
    and "get_prop hdrs ''x-signature-type'' = JStr ''ecc''"
    and "get_prop hdrs ''signature'' = JStr signature" and "signature \<noteq> []"
    and "get_prop hdrs ''x-identity'' = JStr identity" and "identity \<noteq> []"
    and "trustedKeys this identity = None"
  shows "verifyResponse lib this (JStr url) (JStr raw) hdrs checkNetwork False
           = (if identity \<in> set Object_prototype
              then (if index1 (split_on CHR ''='' digest) = Some (sha256_hex lib raw)
                    then Inl TypeError
                    else Inl (DigestMismatch (sha256_hex lib raw)
                                (index1 (split_on CHR ''='' digest))))
              else Inl (UnknownKey identity))"
proof -
  have "truthy hdrs"
    using assms(7) by (rule string_header_truthy)
  with assms show ?thesis
    by (simp add: verifyResponse_def Let_def)
qed

text \<open>The signed response for \<open>main_body\<close> is accepted from the merchant's URL.\<close>

lemma main_response_accepted:
  "verifyResponse demo_lib demo_client (JStr merchant_url) (JStr main_body) main_headers
     checkNetwork False
   = Inr \<lparr>requestUrl = JStr merchant_url,
          responseData = JObj [(''network'', JStr ''main'')], keyData = Some demo_key\<rparr>"
  by (simp add: verifyResponse_def demo_defs array_includes_def nullish_def)

section \<open>Argument and parse errors come before the bypass\<close>

text \<open>
  Claim C10.  With \<open>unsafeBypassValidation = true\<close> the argument checks and the
  JSON parse still run: a falsy \<open>requestUrl\<close>, \<open>rawBody\<close> or \<open>headers\<close> gives
  the error \<open>Parameter ... is required\<close> of the first falsy argument, and a body
  that does not parse gives \<open>Invalid JSON in response body\<close>; none of these calls
  reaches the early return of the bypass.
\<close>

theorem verifyResponse_bypass_preconditions:
  "(\<not> truthy reqUrl \<longrightarrow>
      verifyResponse lib this reqUrl body hdrs cn True
        = Inl (ParameterRequired ''requestUrl''))
   \<and> (truthy reqUrl \<and> \<not> truthy body \<longrightarrow>
      verifyResponse lib this reqUrl body hdrs cn True
        = Inl (ParameterRequired ''rawBody''))
   \<and> (truthy reqUrl \<and> truthy body \<and> \<not> truthy hdrs \<longrightarrow>
      verifyResponse lib this reqUrl body hdrs cn True
        = Inl (ParameterRequired ''headers''))
   \<and> (truthy reqUrl \<and> truthy body \<and> truthy hdrs \<and> JSON_parse lib body = None \<longrightarrow>
      verifyResponse lib this reqUrl body hdrs cn True = Inl InvalidJSON)"
  by (simp add: verifyResponse_def)

text \<open>
  An omitted URL, an empty body, \<open>null\<close> headers and a body that is not JSON, each
  with the bypass switched on.
\<close>

theorem verifyResponse_bypass_preconditions_witness:
  "verifyResponse demo_lib demo_client JUndefined (JStr main_body) main_headers False True
     = Inl (ParameterRequired ''requestUrl'')
   \<and> verifyResponse demo_lib demo_client (JStr merchant_url) (JStr []) main_headers False True
     = Inl (ParameterRequired ''rawBody'')
   \<and> verifyResponse demo_lib demo_client (JStr merchant_url) (JStr main_body) JNull False True
     = Inl (ParameterRequired ''headers'')
   \<and> verifyResponse demo_lib demo_client (JStr merchant_url) (JStr broken_body) main_headers
        False True
     = Inl InvalidJSON"
  using verifyResponse_bypass_preconditions
          [where reqUrl = JUndefined and lib = demo_lib and this = demo_client
             and body = "JStr main_body" and hdrs = main_headers and cn = False]
        verifyResponse_bypass_preconditions
          [where reqUrl = "JStr merchant_url" and lib = demo_lib and this = demo_client
             and body = "JStr []" and hdrs = main_headers and cn = False]
        verifyResponse_bypass_preconditions
          [where reqUrl = "JStr merchant_url" and lib = demo_lib and this = demo_client
             and body = "JStr main_body" and hdrs = JNull and cn = False]
        verifyResponse_bypass_preconditions
          [where reqUrl = "JStr merchant_url" and lib = demo_lib and this = demo_client
             and body = "JStr broken_body" and hdrs = main_headers and cn = False]
  by (simp add: demo_defs)

section \<open>The bypass path\<close>

text \<open>
  Claim C4.  With \<open>unsafeBypassValidation = true\<close>, the three arguments present
  and a body that parses as JSON, the result is \<open>{requestUrl, responseData}\<close>
  without \<open>keyData\<close>.  No header, digest, domain, network or signature check is
  made: the result is the same for every other headers object, trust table and
  \<open>checkNetwork\<close> flag.
\<close>

theorem verifyResponse_bypass:
  assumes "truthy reqUrl" and "truthy body" and "truthy hdrs"
    and "JSON_parse lib body = Some data"
  shows "verifyResponse lib this reqUrl body hdrs checkNetwork True
           = Inr \<lparr>requestUrl = reqUrl, responseData = data, keyData = None\<rparr>
         \<and> (\<forall>this' hdrs' checkNetwork'. truthy hdrs' \<longrightarrow>
               verifyResponse lib this' reqUrl body hdrs' checkNetwork' True
                 = verifyResponse lib this reqUrl body hdrs checkNetwork True)"
  using assms by (simp add: verifyResponse_def)

text \<open>The signed headers and the headers without a digest give the same result.\<close>

theorem verifyResponse_bypass_witness:
  "verifyResponse demo_lib demo_client (JStr merchant_url) (JStr main_body) main_headers
     False True
     = Inr \<lparr>requestUrl = JStr merchant_url,
            responseData = JObj [(''network'', JStr ''main'')], keyData = None\<rparr>
   \<and> verifyResponse demo_lib demo_client (JStr merchant_url) (JStr main_body)
       headers_without_digest True True
     = verifyResponse demo_lib demo_client (JStr merchant_url) (JStr main_body) main_headers
         False True"
  using verifyResponse_bypass
          [where lib = demo_lib and this = demo_client and reqUrl = "JStr merchant_url"
             and body = "JStr main_body" and hdrs = main_headers and checkNetwork = False
             and data = "JObj [(''network'', JStr ''main'')]"]
  by (simp add: demo_defs)

section \<open>A returned response has passed every check\<close>

text \<open>
  Claim C1.  When \<open>verifyResponse\<close> without bypass returns a value, every check
  has passed: the body parses as JSON; the hexadecimal SHA-256 of the body is the
  component after \<open>=\<close> of the digest header; the hostname of the request URL is
  among the domains of the key found under the \<open>x-identity\<close> header; with
  \<open>checkNetwork\<close>, the network of the response is among the networks of that
  key; the secp256k1 signature over the digest verifies under the public key of
  that key.  The value returned is \<open>{requestUrl, responseData, keyData}\<close> with the
  parsed body and that key.
\<close>

theorem verifyResponse_sound:
  assumes "verifyResponse lib this reqUrl body hdrs checkNetwork False = Inr r"
  shows "\<exists>url raw data digest signature identity key parsed host.
           reqUrl = JStr url \<and> body = JStr raw
         \<and> JSON_parse lib body = Some data
         \<and> get_prop hdrs ''digest'' = JStr digest
         \<and> index1 (split_on CHR ''='' digest) = Some (sha256_hex lib raw)
         \<and> get_prop hdrs ''x-signature-type'' = JStr ''ecc''
         \<and> get_prop hdrs ''signature'' = JStr signature
         \<and> get_prop hdrs ''x-identity'' = JStr identity
         \<and> trustedKeys this identity = Some key
         \<and> url_parse lib url = Some parsed \<and> hostname parsed = Some host
         \<and> host \<in> set (domains key)
         \<and> (checkNetwork \<longrightarrow>
               (\<exists>n. get_prop data ''network'' = JStr n \<and> n \<in> set (networks key)))
         \<and> secp256k1_verify lib (Buffer_from_hex lib (sha256_hex lib raw))
              (Buffer_from_hex lib signature) (Buffer_from_hex lib (publicKey key)) = Some True
         \<and> r = \<lparr>requestUrl = reqUrl, responseData = data, keyData = Some key\<rparr>"
  using assms
  by (auto simp: verifyResponse_def Let_def array_includes_def is_JStr_def
        split: if_splits option.splits)

text \<open>
  The example of the specification: body \<open>{"network":"main"}\<close>, a key trusted for
  \<open>merchant.example\<close> and \<open>main\<close>, \<open>checkNetwork = true\<close>.
\<close>

theorem verifyResponse_sound_witness:
  "verifyResponse demo_lib demo_client (JStr merchant_url) (JStr main_body) main_headers
     True False
     = Inr \<lparr>requestUrl = JStr merchant_url,
            responseData = JObj [(''network'', JStr ''main'')], keyData = Some demo_key\<rparr>
   \<and> (\<exists>url raw data digest signature identity key parsed host n.
         JStr merchant_url = JStr url \<and> JStr main_body = JStr raw
       \<and> JSON_parse demo_lib (JStr main_body) = Some data
       \<and> get_prop main_headers ''digest'' = JStr digest
       \<and> index1 (split_on CHR ''='' digest) = Some (sha256_hex demo_lib raw)
       \<and> get_prop main_headers ''signature'' = JStr signature
       \<and> get_prop main_headers ''x-identity'' = JStr identity
       \<and> trustedKeys demo_client identity = Some key
       \<and> url_parse demo_lib url = Some parsed \<and> hostname parsed = Some host
       \<and> host \<in> set (domains key)
       \<and> get_prop data ''network'' = JStr n \<and> n \<in> set (networks key)
       \<and> secp256k1_verify demo_lib (Buffer_from_hex demo_lib (sha256_hex demo_lib raw))
            (Buffer_from_hex demo_lib signature) (Buffer_from_hex demo_lib (publicKey key))
            = Some True)"
proof -
  have accepted:
    "verifyResponse demo_lib demo_client (JStr merchant_url) (JStr main_body) main_headers
       True False
     = Inr \<lparr>requestUrl = JStr merchant_url,
            responseData = JObj [(''network'', JStr ''main'')], keyData = Some demo_key\<rparr>"
    by (rule main_response_accepted)
  from verifyResponse_sound [OF accepted] accepted show ?thesis
    by blast
qed

section \<open>Missing and invalid headers\<close>

text \<open>
  \<^verbatim>\<open>headers.digest.split('=')\<close> is evaluated without a check: a digest entry that
  is not a string (missing, or an array or a number) ends the call with the
  runtime's TypeError, whatever the other headers are.
\<close>

lemma verifyResponse_digest_not_string:
  assumes "truthy reqUrl" and "truthy body" and "truthy hdrs"
    and "JSON_parse lib body = Some data"
    and "\<not> is_JStr (get_prop hdrs ''digest'')"
  shows "verifyResponse lib this reqUrl body hdrs checkNetwork False = Inl TypeError"
  using assms by (simp add: verifyResponse_def)

text \<open>
  The three other headers are checked, in the order \<^verbatim>\<open>x-signature-type\<close>,
  \<^verbatim>\<open>signature\<close>, \<^verbatim>\<open>x-identity\<close>, once the digest is a string and the request URL has
  a hostname; the error names the first of them that is falsy or not a string.
\<close>

lemma verifyResponse_header_errors:
  assumes "url \<noteq> []" and "url_parse lib url = Some parsed"
    and "hostname parsed = Some host" and "host \<noteq> []"
    and "truthy body" and "JSON_parse lib body = Some data"
    and "get_prop hdrs ''digest'' = JStr digest"
  shows "(\<not> truthy (get_prop hdrs ''x-signature-type'') \<longrightarrow>
            verifyResponse lib this (JStr url) body hdrs checkNetwork False
              = Inl (MissingHeader ''x-signature-type''))
       \<and> (truthy (get_prop hdrs ''x-signature-type'')
            \<and> \<not> is_JStr (get_prop hdrs ''x-signature-type'') \<longrightarrow>
            verifyResponse lib this (JStr url) body hdrs checkNetwork False
              = Inl (InvalidHeader ''x-signature-type''))
       \<and> (get_prop hdrs ''x-signature-type'' = JStr ''ecc''
            \<and> \<not> truthy (get_prop hdrs ''signature'') \<longrightarrow>
            verifyResponse lib this (JStr url) body hdrs checkNetwork False
              = Inl (MissingHeader ''signature''))
       \<and> (get_prop hdrs ''x-signature-type'' = JStr ''ecc''
            \<and> truthy (get_prop hdrs ''signature'')
            \<and> \<not> is_JStr (get_prop hdrs ''signature'') \<longrightarrow>
            verifyResponse lib this (JStr url) body hdrs checkNetwork False
              = Inl (InvalidHeader ''signature''))
       \<and> (get_prop hdrs ''x-signature-type'' = JStr ''ecc''
            \<and> truthy (get_prop hdrs ''signature'') \<and> is_JStr (get_prop hdrs ''signature'')
            \<and> \<not> truthy (get_prop hdrs ''x-identity'') \<longrightarrow>
            verifyResponse lib this (JStr url) body hdrs checkNetwork False
              = Inl (MissingHeader ''x-identity''))
       \<and> (get_prop hdrs ''x-signature-type'' = JStr ''ecc''
            \<and> truthy (get_prop hdrs ''signature'') \<and> is_JStr (get_prop hdrs ''signature'')
            \<and> truthy (get_prop hdrs ''x-identity'')
            \<and> \<not> is_JStr (get_prop hdrs ''x-identity'') \<longrightarrow>
            verifyResponse lib this (JStr url) body hdrs checkNetwork False
              = Inl (InvalidHeader ''identity''))"
proof -
  have "truthy hdrs"
    using assms(7) by (rule string_header_truthy)
  with assms show ?thesis
    by (simp add: verifyResponse_def Let_def)
qed

text \<open>
  Claim C2.  A missing or ill-typed \<open>digest\<close>, \<open>signature\<close>, \<open>x-signature-type\<close>
  or \<open>x-identity\<close> header should give an error naming that header.  The code
  does so for three of them and not for the digest: the signed response for
  \<open>{"network":"main"}\<close> with the digest entry removed from its headers ends with
  the runtime's TypeError, not with an error that names the digest header.
\<close>

theorem verifyResponse_missing_digest:
  "verifyResponse demo_lib demo_client (JStr merchant_url) (JStr main_body)
     headers_without_digest False False
   = Inl TypeError"
  by (rule verifyResponse_digest_not_string) (simp_all add: demo_defs)

section \<open>An altered body\<close>

text \<open>
  The body \<open>{"network":"main"}\<close> with its signed headers is accepted.  With
  the closing brace replaced by \<open>x\<close> and the same headers, the call fails at the
  JSON parse, which comes before the digest comparison: the error is
  \<open>Invalid JSON in response body\<close>, not the digest mismatch.
\<close>

theorem altered_body_counterexample:
  "verifyResponse demo_lib demo_client (JStr merchant_url) (JStr main_body) main_headers
     False False
     = Inr \<lparr>requestUrl = JStr merchant_url,
            responseData = JObj [(''network'', JStr ''main'')], keyData = Some demo_key\<rparr>
   \<and> main_body = butlast main_body @ [CHR ''}'']
   \<and> broken_body = butlast main_body @ [CHR ''x'']
   \<and> verifyResponse demo_lib demo_client (JStr merchant_url) (JStr broken_body) main_headers
       False False
     = Inl InvalidJSON"
  by (simp add: main_response_accepted)
     (simp add: verifyResponse_def demo_defs)

text \<open>
  Claim C3, amended.  Let a body with its headers be accepted, and let another
  body of the same length (such as the body with one byte changed) have a
  different SHA-256 digest.  With the same headers the other body is rejected:
  with \<open>Invalid JSON in response body\<close> when it does not parse, and otherwise
  with the digest mismatch, which reports the digest of the other body and the
  one expected by the header.
\<close>

theorem altered_body_rejected:
  assumes "verifyResponse lib this reqUrl (JStr raw) hdrs checkNetwork False = Inr r"
    and "length raw' = length raw"
    and "sha256_hex lib raw' \<noteq> sha256_hex lib raw"
  shows "verifyResponse lib this reqUrl (JStr raw') hdrs checkNetwork False
           = (case JSON_parse lib (JStr raw') of
                None \<Rightarrow> Inl InvalidJSON
              | Some data' \<Rightarrow>
                Inl (DigestMismatch (sha256_hex lib raw') (Some (sha256_hex lib raw))))"
proof -
  note checks = verifyResponse_Inr_checks [OF assms(1)]
  have "truthy (JStr raw)"
    using checks by simp
  then have "truthy (JStr raw')"
    using assms(2) by auto
  moreover obtain key where "trustedKeys this (str_of (get_prop hdrs ''x-identity'')) = Some key"
    using checks by auto
  moreover obtain parsed host where "url_parse lib (str_of reqUrl) = Some parsed"
      "hostname parsed = Some host" "host \<noteq> []"
    using checks by auto
  ultimately show ?thesis
    using checks assms(3)
    by (simp add: verifyResponse_def Let_def split: option.splits)
qed

text \<open>
  The headers of \<open>{"network":"main"}\<close> with the body \<open>{"network":"test"}\<close>, which
  parses, and with the body that ends in \<open>x\<close>, which does not.
\<close>

theorem altered_body_rejected_witness:
  "verifyResponse demo_lib demo_client (JStr merchant_url) (JStr test_body) main_headers
     False False
     = Inl (DigestMismatch
              ''70e0916151f9e06ea25742fc1ce555525390f072583b339ce80de5f0eba0f273''
              (Some ''2d8b5a3901cc752a0607e9500adf3b3a4a8b1aa5f30fcf8592ff6a88ffa99cb0''))
   \<and> verifyResponse demo_lib demo_client (JStr merchant_url) (JStr broken_body) main_headers
       False False
     = Inl InvalidJSON"
  using altered_body_rejected
          [where raw' = test_body, OF main_response_accepted [where checkNetwork = False]]
        altered_body_rejected
          [where raw' = broken_body, OF main_response_accepted [where checkNetwork = False]]
  by (simp add: demo_defs)

section \<open>Untrusted domain\<close>

text \<open>
  Claim C7.  Without bypass, let the body parse, the headers be well-formed, the
  digest match, the identity be a trusted key and the request URL have a
  hostname.  If the hostname is not among the domains of that key, the call
  fails with the untrusted-domain error.  Nothing is assumed about the
  signature: the error is the same whether or not it would verify.
\<close>

theorem verifyResponse_untrusted_domain:
  assumes "url \<noteq> []" and "url_parse lib url = Some parsed"
    and "hostname parsed = Some host" and "host \<noteq> []"
    and "raw \<noteq> []" and "JSON_parse lib (JStr raw) = Some data"
    and "get_prop hdrs ''digest'' = JStr digest"
    and "index1 (split_on CHR ''='' digest) = Some (sha256_hex lib raw)"
    and "get_prop hdrs ''x-signature-type'' = JStr ''ecc''"
    and "get_prop hdrs ''signature'' = JStr signature" and "signature \<noteq> []"
    and "get_prop hdrs ''x-identity'' = JStr identity" and "identity \<noteq> []"
    and "trustedKeys this identity = Some key"
    and "host \<notin> set (domains key)"
  shows "verifyResponse lib this (JStr url) (JStr raw) hdrs checkNetwork False
           = Inl (UntrustedDomain identity host)"
proof -
  have "truthy hdrs"
    using assms(7) by (rule string_header_truthy)
  with assms show ?thesis
    by (simp add: verifyResponse_def Let_def array_includes_def)
qed

text \<open>The signed response for \<open>{"network":"main"}\<close>, received from another host.\<close>

theorem verifyResponse_untrusted_domain_witness:
  "verifyResponse demo_lib demo_client (JStr other_url) (JStr main_body) main_headers
     False False
   = Inl (UntrustedDomain ''id1'' ''other.example'')"
  by (rule verifyResponse_untrusted_domain
        [where parsed = "\<lparr>protocol = Some ''https:'', hostname = Some ''other.example'',
                          port = None, path = Some ''/pay'', query = None\<rparr>"
           and data = "JObj [(''network'', JStr ''main'')]"
           and digest = "''SHA-256='' @ demo_sha256_hex main_body"
           and signature = main_signature and key = demo_key])
     (simp_all add: demo_defs)

section \<open>The operations and the transport\<close>

text \<open>The transport records the request and leaves the client as it is.\<close>

lemma asyncRequest_self: "self (snd (asyncRequest lib net opts st)) = self st"
  by (simp add: asyncRequest_def Let_def split: option.splits http_outcome.splits)

lemma asyncRequest_selfD:
  "asyncRequest lib net opts st = (res, st') \<Longrightarrow> self st' = self st"
  using asyncRequest_self [of lib net opts st] by simp


text \<open>
  What each operation returns when the server answers its request with status
  200, the body \<open>raw\<close> and the headers \<open>hs\<close>.
\<close>

lemma getPaymentOptions_http_answered:
  assumes "url_parse lib url = Some parsed"
    and "protocol parsed = Some ''http:'' \<or> protocol parsed = Some ''https:''"
    and "\<forall>request. net (wire st) request = Response 200 raw hs"
  shows "fst (getPaymentOptions lib net url bypass st)
           = verifyResponse lib (self st) (JStr url) (JStr raw) hs False bypass"
  using assms
  by (auto simp add: getPaymentOptions_def asyncRequest_def Let_def js_of_entry_def)

lemma selectPaymentOption_answered:
  assumes "url_parse lib url = Some parsed"
    and "\<forall>request. net (wire st) request = Response 200 raw hs"
  shows "fst (selectPaymentOption lib net url chain currency bypass st)
           = verifyResponse lib (self st) (JStr url) (JStr raw) hs True bypass"
  using assms
  by (simp add: selectPaymentOption_def asyncRequest_def Let_def js_of_entry_def)







section \<open>Untrusted network\<close>






section \<open>The verification step is not verified\<close>



section \<open>Payment URIs\<close>

text \<open>
  Claim C6.  Let the scheme of \<open>paymentUrl\<close> be neither http nor https.  If
  its query string has no \<open>r\<close> parameter (or an empty one), \<open>getPaymentOptions\<close>
  fails with \<open>Invalid payment protocol url\<close> and sends nothing.  If \<open>r\<close> is a
  URL, exactly one request is sent: a GET to the hostname, path and port of
  \<open>r\<close>, with the headers \<open>Accept: application/payment-options\<close> and
  \<open>x-paypro-version: 2\<close>; the answer is verified against \<open>r\<close> as the request
  URL.
\<close>

theorem getPaymentOptions_payment_uri:
  assumes "url_parse lib paymentUrl = Some u"
    and "protocol u \<noteq> Some ''http:''" and "protocol u \<noteq> Some ''https:''"
  shows "(\<not> truthy (get_prop (JObj (query_decode lib (query u))) ''r'') \<longrightarrow>
            getPaymentOptions lib net paymentUrl bypass st
              = (Inl InvalidPaymentProtocolUrl, st))
       \<and> (\<forall>r target.
            get_prop (JObj (query_decode lib (query u))) ''r'' = JStr r \<and> r \<noteq> []
            \<and> url_parse lib r = Some target \<longrightarrow>
            (\<exists>request.
               wire (snd (getPaymentOptions lib net paymentUrl bypass st)) = wire st @ [request]
               \<and> sent_options request ''method'' = Some (JStr ''GET'')
               \<and> sent_options request ''url'' = None
               \<and> sent_options request ''hostname'' = Some (js_of_opt (hostname target))
               \<and> sent_options request ''path'' = Some (js_of_opt (path target))
               \<and> sent_options request ''port'' = Some (js_of_opt (port target))
               \<and> sent_options request ''headers''
                   = Some (JObj [(''Accept'', JStr ''application/payment-options''),
                                 (''x-paypro-version'', JNum 2)]))
            \<and> (\<forall>raw hs.
                 (\<forall>request. net (wire st) request = Response 200 raw hs) \<longrightarrow>
                 fst (getPaymentOptions lib net paymentUrl bypass st)
                   = verifyResponse lib (self st) (JStr r) (JStr raw) hs False bypass))"
  using assms
  by (auto simp add: getPaymentOptions_def asyncRequest_def Let_def js_of_entry_def
        split: http_outcome.splits)

text \<open>
  The URI \<open>bitcoin:\<close> has no \<open>r\<close>; the URI
  \<open>bitcoin:?r=https://merchant.example/pay\<close> leads to one GET to
  \<open>merchant.example\<close>, whose signed answer is accepted for that URL.
\<close>

theorem getPaymentOptions_payment_uri_witness:
  "getPaymentOptions demo_lib (constant_net 200 main_body main_headers) ''bitcoin:'' False
     demo_state
     = (Inl InvalidPaymentProtocolUrl, demo_state)
   \<and> (\<exists>request.
         wire (snd (getPaymentOptions demo_lib (constant_net 200 main_body main_headers)
                      ''bitcoin:?r=https://merchant.example/pay'' False demo_state))
           = [request]
         \<and> sent_options request ''method'' = Some (JStr ''GET'')
         \<and> sent_options request ''hostname'' = Some (JStr ''merchant.example'')
         \<and> sent_options request ''path'' = Some (JStr ''/pay'')
         \<and> sent_options request ''port'' = Some JNull
         \<and> sent_options request ''headers''
             = Some (JObj [(''Accept'', JStr ''application/payment-options''),
                           (''x-paypro-version'', JNum 2)]))
   \<and> fst (getPaymentOptions demo_lib (constant_net 200 main_body main_headers)
            ''bitcoin:?r=https://merchant.example/pay'' False demo_state)
     = Inr \<lparr>requestUrl = JStr merchant_url,
            responseData = JObj [(''network'', JStr ''main'')], keyData = Some demo_key\<rparr>"
proof -
  let ?net = "constant_net 200 main_body main_headers"
  let ?target = "\<lparr>protocol = Some ''https:'', hostname = Some ''merchant.example'',
                  port = None, path = Some ''/pay'', query = None\<rparr>"
  have no_r:
    "getPaymentOptions demo_lib ?net ''bitcoin:'' False demo_state
       = (Inl InvalidPaymentProtocolUrl, demo_state)"
    using getPaymentOptions_payment_uri
            [where lib = demo_lib and paymentUrl = "''bitcoin:''"
               and u = "\<lparr>protocol = Some ''bitcoin:'', hostname = Some [],
                          port = None, path = None, query = None\<rparr>"
               and net = ?net and bypass = False and st = demo_state]
    by (simp add: demo_defs)
  have with_r:
    "(\<exists>request.
         wire (snd (getPaymentOptions demo_lib ?net
                      ''bitcoin:?r=https://merchant.example/pay'' False demo_state))
           = wire demo_state @ [request]
         \<and> sent_options request ''method'' = Some (JStr ''GET'')
         \<and> sent_options request ''url'' = None
         \<and> sent_options request ''hostname'' = Some (js_of_opt (hostname ?target))
         \<and> sent_options request ''path'' = Some (js_of_opt (path ?target))
         \<and> sent_options request ''port'' = Some (js_of_opt (port ?target))
         \<and> sent_options request ''headers''
             = Some (JObj [(''Accept'', JStr ''application/payment-options''),
                           (''x-paypro-version'', JNum 2)]))
     \<and> (\<forall>raw hs.
           (\<forall>request. ?net (wire demo_state) request = Response 200 raw hs) \<longrightarrow>
           fst (getPaymentOptions demo_lib ?net
                  ''bitcoin:?r=https://merchant.example/pay'' False demo_state)
             = verifyResponse demo_lib (self demo_state) (JStr merchant_url) (JStr raw) hs
                 False False)"
    using getPaymentOptions_payment_uri
            [where lib = demo_lib and paymentUrl = "''bitcoin:?r=https://merchant.example/pay''"
               and u = "\<lparr>protocol = Some ''bitcoin:'', hostname = Some [],
                          port = None, path = Some ''?r=https://merchant.example/pay'',
                          query = Some ''r=https://merchant.example/pay''\<rparr>"
               and net = ?net and bypass = False and st = demo_state,
             THEN conjunct2, rule_format, of merchant_url ?target]
    by (simp add: demo_defs)
  have answer: "\<forall>request. ?net (wire demo_state) request = Response 200 main_body main_headers"
    by (simp add: constant_net_def)
  have "fst (getPaymentOptions demo_lib ?net
               ''bitcoin:?r=https://merchant.example/pay'' False demo_state)
          = verifyResponse demo_lib (self demo_state) (JStr merchant_url) (JStr main_body)
              main_headers False False"
    using with_r answer by blast
  then have accepted:
    "fst (getPaymentOptions demo_lib ?net
            ''bitcoin:?r=https://merchant.example/pay'' False demo_state)
       = Inr \<lparr>requestUrl = JStr merchant_url,
              responseData = JObj [(''network'', JStr ''main'')], keyData = Some demo_key\<rparr>"
    by (simp add: main_response_accepted demo_state_def)
  from with_r have sent:
    "\<exists>request.
         wire (snd (getPaymentOptions demo_lib ?net
                      ''bitcoin:?r=https://merchant.example/pay'' False demo_state))
           = [request]
         \<and> sent_options request ''method'' = Some (JStr ''GET'')
         \<and> sent_options request ''hostname'' = Some (JStr ''merchant.example'')
         \<and> sent_options request ''path'' = Some (JStr ''/pay'')
         \<and> sent_options request ''port'' = Some JNull
         \<and> sent_options request ''headers''
             = Some (JObj [(''Accept'', JStr ''application/payment-options''),
                           (''x-paypro-version'', JNum 2)])"
    by (auto simp: js_of_opt_def demo_state_def)
  from no_r sent accepted show ?thesis
    by blast
qed

section \<open>The trust table is only read\<close>

lemma getPaymentOptions_self:
  "self (snd (getPaymentOptions lib net u b st)) = self st"
  by (auto simp: getPaymentOptions_def Let_def split: option.splits prod.splits sum.splits
        dest: asyncRequest_selfD)

lemma selectPaymentOption_self:
  "self (snd (selectPaymentOption lib net u ch cu b st)) = self st"
  by (auto simp: selectPaymentOption_def split: prod.splits sum.splits
        dest: asyncRequest_selfD)

lemma verifyPaymentRequest_self:
  "self (snd (verifyPaymentRequest lib net u ch cu txs b st)) = self st"
  by (auto simp: verifyPaymentRequest_def split: option.splits prod.splits sum.splits
        dest: asyncRequest_selfD)

lemma sendSignedPayment_self:
  "self (snd (sendSignedPayment lib net u ch cu txs b st)) = self st"
  by (auto simp: sendSignedPayment_def split: prod.splits sum.splits
        dest: asyncRequest_selfD)

lemma perform_self: "self (perform lib net st c) = self st"
  by (cases c)
    (simp_all add: getPaymentOptions_self selectPaymentOption_self
       verifyPaymentRequest_self sendSignedPayment_self)

lemma run_self: "self (run lib net st calls) = self st"
  unfolding run_def
  by (induction calls arbitrary: st) (simp_all add: perform_self)

text \<open>
  \<open>verifyResponse\<close> reads the trust table at one place, the string of the
  \<open>x-identity\<close> header: two tables that agree there give the same result.
\<close>

lemma verifyResponse_reads_one_key:
  assumes "\<forall>identity. get_prop hdrs ''x-identity'' = JStr identity \<longrightarrow>
             trustedKeys this' identity = trustedKeys this identity"
  shows "verifyResponse lib this' reqUrl body hdrs cn bypass
           = verifyResponse lib this reqUrl body hdrs cn bypass"
proof (cases "is_JStr (get_prop hdrs ''x-identity'')")
  case True
  then have same: "trustedKeys this' (str_of (get_prop hdrs ''x-identity''))
               = trustedKeys this (str_of (get_prop hdrs ''x-identity''))"
    using assms by (auto simp: is_JStr_def)
  show ?thesis
    unfolding verifyResponse_def Let_def by (simp only: same)
next
  case False
  show ?thesis
    unfolding verifyResponse_def Let_def
    by (simp only: False not_False_eq_True if_True)
qed

text \<open>
  Claim C9.  After any sequence of \<open>getPaymentOptions\<close>, \<open>selectPaymentOption\<close>,
  \<open>verifyPaymentRequest\<close>, \<open>sendSignedPayment\<close> and \<open>verifyResponse\<close> calls,
  whatever they return, the trust table of the client is the mapping given to
  the constructor.  The table is only read, under the exact string of the
  \<open>x-identity\<close> header: a verification gives the same result with any other
  table that holds the same entry under that string.
\<close>

theorem trustedKeys_never_mutated:
  "trustedKeys (self (run lib net \<lparr>self = new_PaymentProtocol requestOptions keys,
                                    wire = sent\<rparr> calls)) = keys
   \<and> (\<forall>this'. (\<forall>identity. get_prop hdrs ''x-identity'' = JStr identity \<longrightarrow>
                   trustedKeys this' identity = trustedKeys this identity) \<longrightarrow>
        verifyResponse lib this' reqUrl body hdrs cn bypass
          = verifyResponse lib this reqUrl body hdrs cn bypass)"
proof (intro conjI allI impI)
  show "trustedKeys (self (run lib net \<lparr>self = new_PaymentProtocol requestOptions keys,
                                         wire = sent\<rparr> calls)) = keys"
    by (simp add: run_self new_PaymentProtocol_def)
next
  fix this' :: PaymentProtocol
  assume "\<forall>identity. get_prop hdrs ''x-identity'' = JStr identity \<longrightarrow>
            trustedKeys this' identity = trustedKeys this identity"
  then show "verifyResponse lib this' reqUrl body hdrs cn bypass
               = verifyResponse lib this reqUrl body hdrs cn bypass"
    by (rule verifyResponse_reads_one_key)
qed

text \<open>
  A payment flow of four calls against a server that always sends the signed
  \<open>{"network":"main"}\<close>, then a direct verification; and a verification with a
  table that has a second identity.
\<close>

theorem trustedKeys_never_mutated_witness:
  "trustedKeys (self (run demo_lib (constant_net 200 main_body main_headers) demo_state
      [GetPaymentOptions ''bitcoin:?r=https://merchant.example/pay'' False,
       SelectPaymentOption merchant_url (JStr ''BTC'') (JStr ''BTC'') False,
       VerifyPaymentRequest merchant_url (JStr ''BTC'') (JStr ''BTC'') (JArr []) False,
       SendSignedPayment other_url (JStr ''BTC'') (JStr ''BTC'') (JArr []) False,
       VerifyResponse (JStr merchant_url) (JStr broken_body) main_headers True False]))
     = demo_keys
   \<and> verifyResponse demo_lib
       \<lparr>options = Map.empty,
        trustedKeys = demo_keys(''id2'' \<mapsto> demo_key\<lparr>domains := [''other.example'']\<rparr>)\<rparr>
       (JStr merchant_url) (JStr main_body) main_headers True False
     = verifyResponse demo_lib demo_client (JStr merchant_url) (JStr main_body) main_headers
         True False"
proof -
  note frame =
    trustedKeys_never_mutated
      [where lib = demo_lib and net = "constant_net 200 main_body main_headers"
         and requestOptions = "[''rejectUnauthorized'' \<mapsto> JBool False]"
         and keys = demo_keys and sent = "[]" and hdrs = main_headers
         and this = demo_client and reqUrl = "JStr merchant_url"
         and body = "JStr main_body" and cn = True and bypass = False]
  have kept: "trustedKeys (self (run demo_lib (constant_net 200 main_body main_headers)
      demo_state
      [GetPaymentOptions ''bitcoin:?r=https://merchant.example/pay'' False,
       SelectPaymentOption merchant_url (JStr ''BTC'') (JStr ''BTC'') False,
       VerifyPaymentRequest merchant_url (JStr ''BTC'') (JStr ''BTC'') (JArr []) False,
       SendSignedPayment other_url (JStr ''BTC'') (JStr ''BTC'') (JArr []) False,
       VerifyResponse (JStr merchant_url) (JStr broken_body) main_headers True False]))
     = demo_keys"
    unfolding demo_state_def demo_client_def by (rule frame [THEN conjunct1])
  have same: "verifyResponse demo_lib
       \<lparr>options = Map.empty,
        trustedKeys = demo_keys(''id2'' \<mapsto> demo_key\<lparr>domains := [''other.example'']\<rparr>)\<rparr>
       (JStr merchant_url) (JStr main_body) main_headers True False
     = verifyResponse demo_lib demo_client (JStr merchant_url) (JStr main_body) main_headers
         True False"
    by (rule frame [THEN conjunct2, rule_format])
       (simp add: demo_client_def new_PaymentProtocol_def main_headers_def)
  from kept same show ?thesis
    by (rule conjI)
qed

end
